theory Spec2Isabelle
  imports Main "HOL-Library.Sublist"
begin

section \<open>JavaScript strings\<close>

text \<open>
  A JavaScript string is a sequence of UTF-16 code units; \<open>length\<close>, \<open>substring\<close>,
  \<open>split\<close>, \<open>includes\<close> and the regular expressions of the source all work on code
  units. A code unit is a natural number below 65536; no operation of the source does
  arithmetic on one. ASCII literals are written \<open>js ''...''\<close>; the euro and pound signs
  of the source's patterns are the code units 8364 and 163.
\<close>

type_synonym jsstring = "nat list"

abbreviation js :: "string \<Rightarrow> jsstring" where
  "js s \<equiv> map of_char s"

text \<open>\<open>s.includes(p)\<close>: \<open>p\<close> occurs in \<open>s\<close> as a contiguous run.\<close>

fun includes_js :: "'a list \<Rightarrow> 'a list \<Rightarrow> bool" where
  "includes_js [] p = (p = [])"
| "includes_js (x # xs) p = (prefix p (x # xs) \<or> includes_js xs p)"

text \<open>
  \<open>s.toLowerCase()\<close>. The source only searches the result for ASCII keywords, and the
  code units whose lower case contains an ASCII letter are \<open>A\<close> to \<open>Z\<close>, U+0130 (which
  becomes \<open>i\<close> followed by U+0307) and U+212A (the Kelvin sign, which becomes \<open>k\<close>).
  Every other code unit is left as it is: its lower case has no ASCII code unit either.
\<close>

definition lowerUnit :: "nat \<Rightarrow> jsstring" where
  "lowerUnit c =
     (if 65 \<le> c \<and> c \<le> 90 then [c + 32]
      else if c = 304 then [105, 775]
      else if c = 8490 then [107]
      else [c])"

definition toLowerCase :: "jsstring \<Rightarrow> jsstring" where
  "toLowerCase s = concat (map lowerUnit s)"

text \<open>
  The white space that \<open>trim\<close> removes: TAB, LF, VT, FF, CR, space, NBSP, U+1680,
  U+2000 to U+200A, U+2028, U+2029, U+202F, U+205F, U+3000 and U+FEFF.
\<close>

definition isWhiteSpace :: "nat \<Rightarrow> bool" where
  "isWhiteSpace c =
     (c \<in> {9, 10, 11, 12, 13, 32, 160, 5760, 8232, 8233, 8239, 8287, 12288, 65279}
      \<or> (8192 \<le> c \<and> c \<le> 8202))"

definition trim :: "jsstring \<Rightarrow> jsstring" where
  "trim s = rev (dropWhile isWhiteSpace (rev (dropWhile isWhiteSpace s)))"

text \<open>\<open>s.split(' ')\<close>: the pieces between single spaces, empty pieces included.\<close>

fun split :: "'a \<Rightarrow> 'a list \<Rightarrow> 'a list list" where
  "split sep [] = [[]]"
| "split sep (c # cs) =
     (if c = sep then [] # split sep cs
      else (case split sep cs of
              [] \<Rightarrow> [[c]]
            | p # ps \<Rightarrow> (c # p) # ps))"

text \<open>
  A regular expression of the source is an alternation of literal strings under the
  \<open>i\<close> flag, used with \<open>test\<close>: it holds when some alternative occurs in the text, code
  units compared after canonicalisation. Canonicalisation upper-cases a code unit; for
  the alternatives of the source (ASCII letters, \<open>$\<close>, the euro and the pound sign) only
  the ASCII letters matter, since no code unit from 128 on canonicalises to one below
  128 and no other code unit upper-cases to the euro or the pound sign.
\<close>

definition canonicalize :: "nat \<Rightarrow> nat" where
  "canonicalize c = (if 97 \<le> c \<and> c \<le> 122 then c - 32 else c)"

definition test_i :: "jsstring list \<Rightarrow> jsstring \<Rightarrow> bool" where
  "test_i alternatives s =
     (\<exists>p \<in> set alternatives. includes_js (map canonicalize s) (map canonicalize p))"

section \<open>Documents\<close>

text \<open>
  The parsed document that \<open>cheerio.load\<close> hands to the engine: a forest of nodes below
  the root. An element has its tag name, its attributes in source order and its
  children; the other nodes are text and comments.
\<close>

datatype node =
    Element jsstring "(jsstring \<times> jsstring) list" "node list"
  | TextNode jsstring
  | Comment jsstring

type_synonym document = "node list"

text \<open>\<open>$(elem).text()\<close>: the data of the text nodes below the element, in order.\<close>

fun nodeText :: "node \<Rightarrow> jsstring" where
  "nodeText (Element t as cs) = concat (map nodeText cs)"
| "nodeText (TextNode s) = s"
| "nodeText (Comment s) = []"

text \<open>The elements of a subtree in document order, the subtree's root first.\<close>

fun elementsOf :: "node \<Rightarrow> node list" where
  "elementsOf (Element t as cs) = Element t as cs # concat (map elementsOf cs)"
| "elementsOf (TextNode s) = []"
| "elementsOf (Comment s) = []"

text \<open>\<open>$('*')\<close>: every element of the document, in document order.\<close>

definition allElements :: "document \<Rightarrow> node list" where
  "allElements doc = concat (map elementsOf doc)"

fun name :: "node \<Rightarrow> jsstring" where
  "name (Element t as cs) = t"
| "name (TextNode s) = []"
| "name (Comment s) = []"

fun childNodes :: "node \<Rightarrow> node list" where
  "childNodes (Element t as cs) = cs"
| "childNodes (TextNode s) = []"
| "childNodes (Comment s) = []"

text \<open>\<open>$(elem).attr(a)\<close>: the value of the first attribute of that name, if any.\<close>

fun attr :: "node \<Rightarrow> jsstring \<Rightarrow> jsstring option" where
  "attr (Element t as cs) a = map_of as a"
| "attr (TextNode s) a = None"
| "attr (Comment s) a = None"

section \<open>The fallback classifier\<close>

text \<open>
  A candidate element as \<open>intelligentSelectorDiscovery\<close> collects it. The source also
  stores \<open>context\<close>, the parent's tag name in upper case; nothing reads that field and it
  is left out.
\<close>

record candidate =
  tag :: jsstring
  text' :: jsstring
  classes :: "jsstring option"
  id' :: "jsstring option"

definition candidateOf :: "node \<Rightarrow> candidate option" where
  "candidateOf elem =
     (let t = trim (nodeText elem) in
      if t \<noteq> [] \<and> length t > 10
      then Some \<lparr>tag = name elem, text' = take 200 t,
                 classes = attr elem (js ''class''), id' = attr elem (js ''id'')\<rparr>
      else None)"

definition collectElements :: "document \<Rightarrow> candidate list" where
  "collectElements doc = List.map_filter candidateOf (allElements doc)"

definition buildSelector :: "candidate \<Rightarrow> jsstring" where
  "buildSelector element =
     (let viaClasses =
        (case classes element of
           None \<Rightarrow> tag element
         | Some cl \<Rightarrow>
             if cl = [] then tag element
             else (case filter (\<lambda>c. length c > 2) (split 32 cl) of
                     c # cs \<Rightarrow> js ''.'' @ c
                   | [] \<Rightarrow> tag element))
      in case id' element of
           None \<Rightarrow> viaClasses
         | Some i \<Rightarrow> if i = [] then viaClasses else js ''#'' @ i)"

text \<open>
  The two regular expressions and the keyword tests of the source. Both
  \<open>findBestPriceSelector\<close> and \<open>identifyDataTypes\<close> put the whole alternation under the
  \<open>i\<close> flag.
\<close>

definition moneyPattern :: "jsstring list" where
  "moneyPattern = [js ''$'', [8364], [163], js ''USD'', js ''price'', js ''cost'']"

definition findBestPriceSelector :: "candidate list \<Rightarrow> jsstring" where
  "findBestPriceSelector elements =
     (case List.find (\<lambda>elem. test_i moneyPattern (text' elem)) elements of
        Some elem \<Rightarrow> buildSelector elem
      | None \<Rightarrow> js ''.price, .cost, [class*=\"price\"]'')"

definition findBestTitleSelector :: "candidate list \<Rightarrow> jsstring" where
  "findBestTitleSelector elements =
     (case filter (\<lambda>e. tag e \<in> set [js ''h1'', js ''h2'', js ''h3'', js ''h4'']
                        \<and> length (text' e) > 10) elements of
        h # hs \<Rightarrow> buildSelector h
      | [] \<Rightarrow> js ''.title, .name, h1, h2, h3'')"

text \<open>
  What the source asks of the language tagger (the \<open>compromise\<close> library) about the page
  text: \<open>has('#Money')\<close>, \<open>has('#Noun')\<close>, \<open>match('#Email').found\<close> and
  \<open>match('#PhoneNumber').found\<close>. The tagger itself is a parameter of the model.
\<close>

record nlpDoc =
  hasMoney :: bool
  hasNoun :: bool
  emailFound :: bool
  phoneFound :: bool

definition identifyDataTypes :: "jsstring \<Rightarrow> nlpDoc \<Rightarrow> jsstring list" where
  "identifyDataTypes userPrompt nlp =
     (let types = [];
          types = (if hasMoney nlp
                      \<or> test_i [js ''price'', js ''cost'', [8364], js ''$'', [163]] userPrompt
                   then types @ [js ''prices''] else types);
          types = (if emailFound nlp \<or> test_i [js ''contact'', js ''email''] userPrompt
                   then types @ [js ''emails''] else types);
          types = (if phoneFound nlp
                      \<or> test_i [js ''phone'', js ''tel'', js ''contact''] userPrompt
                   then types @ [js ''phones''] else types);
          types = (if hasNoun nlp
                      \<or> test_i [js ''product'', js ''item'', js ''service''] userPrompt
                   then types @ [js ''products''] else types)
      in if length types > 0 then types else [js ''text_content''])"

text \<open>
  What a call can throw. The class of the source defines no method
  \<open>findBestContactSelector\<close>, so the call in the contact branch of
  \<open>intelligentSelectorDiscovery\<close> raises a \<open>TypeError\<close>; neither that method nor
  \<open>fallbackAnalysis\<close> nor \<open>analyzeContentStructure\<close> catches it. \<open>SelectorError\<close> is what
  the selection primitive of the document library throws on a rule it rejects;
  \<open>Unmodelled\<close> is the answer of the model of that primitive below on a rule outside the
  rules it covers.
\<close>

datatype error =
    TypeError jsstring
  | SelectorError jsstring
  | Unmodelled jsstring

type_synonym fieldMap = "(jsstring \<times> jsstring) list"

definition intelligentSelectorDiscovery ::
    "document \<Rightarrow> jsstring \<Rightarrow> nlpDoc \<Rightarrow> error + fieldMap" where
  "intelligentSelectorDiscovery doc userPrompt nlp =
     (let elements = collectElements doc;
          selectors = [];
          selectors =
            (if includes_js (toLowerCase userPrompt) (js ''price'') \<or> hasMoney nlp
             then selectors @ [(js ''price'', findBestPriceSelector elements)]
             else selectors);
          selectors =
            (if includes_js (toLowerCase userPrompt) (js ''product'') \<or> hasNoun nlp
             then selectors @ [(js ''title'', findBestTitleSelector elements)]
             else selectors)
      in if includes_js (toLowerCase userPrompt) (js ''contact'')
            \<or> emailFound nlp \<or> phoneFound nlp
         then Inl (TypeError (js ''this.findBestContactSelector is not a function''))
         else Inr (selectors @
                 [(js ''item'', js ''.product, .item, .card, [class*=\"item\"], li, article'')]))"

record inferenceResult =
  selectors :: fieldMap
  dataTypes :: "jsstring list"
  confidence :: jsstring
  source :: jsstring

definition fallbackAnalysis ::
    "(jsstring \<Rightarrow> nlpDoc) \<Rightarrow> document \<Rightarrow> jsstring \<Rightarrow> jsstring \<Rightarrow> error + inferenceResult" where
  "fallbackAnalysis compromise doc userPrompt textContent =
     (let nlp = compromise textContent in
      case intelligentSelectorDiscovery doc userPrompt nlp of
        Inl e \<Rightarrow> Inl e
      | Inr sels \<Rightarrow>
          Inr \<lparr>selectors = sels, dataTypes = identifyDataTypes userPrompt nlp,
               confidence = js ''medium'', source = js ''fallback''\<rparr>)"

section \<open>The oracle's answer and the orchestrator\<close>

text \<open>
  A value that \<open>JSON.parse\<close> returns. A number keeps its text: no operation of the
  source reads one. \<open>JSON.parse\<close> itself is a parameter of the model; \<open>None\<close> stands for
  the \<open>SyntaxError\<close> it throws.
\<close>

datatype json =
    JNull
  | JBool bool
  | JNumber jsstring
  | JString jsstring
  | JArray "json list"
  | JObject "(jsstring \<times> json) list"

text \<open>
  \<open>aiText.match(/\{[\s\S]*\}/)\<close>: the leftmost, longest span that starts with an opening
  brace and ends with a closing brace, so from the first \<open>{\<close> (code unit 123) to the last
  \<open>}\<close> (code unit 125) after it.
\<close>

definition matchBraces :: "jsstring \<Rightarrow> jsstring option" where
  "matchBraces aiText =
     (case dropWhile (\<lambda>c. c \<noteq> 123) aiText of
        [] \<Rightarrow> None
      | b # rest \<Rightarrow>
          (case dropWhile (\<lambda>c. c \<noteq> 125) (rev rest) of
             [] \<Rightarrow> None
           | e # inner \<Rightarrow> Some (b # rev (e # inner))))"

text \<open>
  What \<open>analyzeContentStructure\<close> returns: \<open>null\<close>, the value parsed from the oracle's
  text, or the object that \<open>fallbackAnalysis\<close> builds.
\<close>

datatype analysis =
    Null
  | Parsed json
  | Fallback inferenceResult

definition parseAIResponse :: "(jsstring \<Rightarrow> json option) \<Rightarrow> jsstring \<Rightarrow> analysis" where
  "parseAIResponse JSON_parse aiText =
     (case matchBraces aiText of
        None \<Rightarrow> Null
      | Some jsonMatch \<Rightarrow>
          (case JSON_parse jsonMatch of
             None \<Rightarrow> Null
           | Some v \<Rightarrow> Parsed v))"

text \<open>
  \<open>aiResponse\<close> is \<open>Some t\<close> when the service answered and
  \<open>aiResponse[0].generated_text\<close> is the string \<open>t\<close>, and \<open>None\<close> when
  \<open>queryHuggingFace\<close> returned \<open>null\<close> (failed request, status other than 200) or the
  answer has no such field. The empty string is falsy and takes the fallback branch.
\<close>

definition analyzeContentStructure ::
    "(jsstring \<Rightarrow> json option) \<Rightarrow> (jsstring \<Rightarrow> nlpDoc) \<Rightarrow> document \<Rightarrow> jsstring
       \<Rightarrow> jsstring option \<Rightarrow> error + analysis" where
  "analyzeContentStructure JSON_parse compromise doc userPrompt aiResponse =
     (let textContent =
            take 1500 (concat (map nodeText
              (filter (\<lambda>e. name e = js ''body'') (allElements doc))));
          generated_text = (case aiResponse of None \<Rightarrow> [] | Some t \<Rightarrow> t)
      in if generated_text \<noteq> [] then Inr (parseAIResponse JSON_parse generated_text)
         else (case fallbackAnalysis compromise doc userPrompt textContent of
                 Inl e \<Rightarrow> Inl e
               | Inr r \<Rightarrow> Inr (Fallback r)))"

text \<open>
  The returned value as the plain object the callers read (\<open>analysis.selectors\<close>,
  \<open>analysis.source\<close>), and the read of one of its properties.
\<close>

fun asJson :: "analysis \<Rightarrow> json" where
  "asJson Null = JNull"
| "asJson (Parsed v) = v"
| "asJson (Fallback r) =
     JObject [(js ''selectors'', JObject (map (\<lambda>(k, v). (k, JString v)) (selectors r))),
              (js ''dataTypes'', JArray (map JString (dataTypes r))),
              (js ''confidence'', JString (confidence r)),
              (js ''source'', JString (source r))]"

fun property :: "json \<Rightarrow> jsstring \<Rightarrow> json option" where
  "property (JObject kvs) k = map_of kvs k"
| "property v k = None"

section \<open>The preview materializer\<close>

text \<open>
  The selection primitive of the document library is a parameter: \<open>select rule nodes\<close>
  gives the elements among \<open>nodes\<close> and their descendants that match \<open>rule\<close>, in document
  order, or the error it throws on a rule it rejects. \<open>$(rule)\<close> is \<open>select rule doc\<close> and
  \<open>$(elem).find(rule)\<close> is \<open>select rule (childNodes elem)\<close>.
\<close>

type_synonym selectFn = "jsstring \<Rightarrow> node list \<Rightarrow> error + node list"

type_synonym previewRecord = "(jsstring \<times> jsstring) list"

text \<open>\<open>.first().text()\<close> of a selection: empty when nothing was selected.\<close>

fun firstText :: "node list \<Rightarrow> jsstring" where
  "firstText [] = []"
| "firstText (e # es) = nodeText e"

text \<open>The loop over \<open>Object.entries(selectors)\<close> for one container, filling \<open>item\<close>.\<close>

fun fillItem :: "selectFn \<Rightarrow> node \<Rightarrow> fieldMap \<Rightarrow> previewRecord \<Rightarrow> error + previewRecord" where
  "fillItem select elem [] item = Inr item"
| "fillItem select elem ((key, selector) # entries) item =
     (if key \<noteq> js ''item'' then
        (case select selector (childNodes elem) of
           Inl e \<Rightarrow> Inl e
         | Inr found \<Rightarrow> fillItem select elem entries (item @ [(key, trim (firstText found))]))
      else fillItem select elem entries item)"

text \<open>The \<open>each\<close> loop over the containers, pushing onto \<open>results\<close>.\<close>

fun eachItem ::
    "selectFn \<Rightarrow> fieldMap \<Rightarrow> node list \<Rightarrow> previewRecord list \<Rightarrow> error + previewRecord list" where
  "eachItem select sels [] results = Inr results"
| "eachItem select sels (elem # elems) results =
     (case fillItem select elem sels [] of
        Inl e \<Rightarrow> Inl e
      | Inr item \<Rightarrow>
          eachItem select sels elems
            (if list_ex (\<lambda>(k, val). val \<noteq> []) item then results @ [item] else results))"

definition generateDataPreview ::
    "selectFn \<Rightarrow> document \<Rightarrow> fieldMap \<Rightarrow> error + previewRecord list" where
  "generateDataPreview select doc sels =
     (let rule = (case map_of sels (js ''item'') of
                    None \<Rightarrow> js ''body''
                  | Some r \<Rightarrow> if r \<noteq> [] then r else js ''body'')
      in case select rule doc of
           Inl e \<Rightarrow> Inl e
         | Inr elems \<Rightarrow> eachItem select sels elems [])"

section \<open>The selection primitive on simple rules\<close>

text \<open>
  The selection primitive for the rules that the fallback classifier itself emits:
  alternatives separated by commas, each a tag name, \<open>#id\<close>, \<open>.class\<close> or
  \<open>[attribute*="value"]\<close>. A tag name is compared with the element's name, an id with
  the \<open>id\<close> attribute, a class with the names of the \<open>class\<close> attribute between white
  space, and \<open>*=\<close> asks for a substring of the attribute's value. The primitive
  throws on a rule in which an alternative \<open>.name\<close> or \<open>#name\<close> is directly followed by
  a character that can neither continue the name nor begin another part of a rule, as
  in \<open>.hd!\<close>. A rule of any other shape is not covered and is answered by \<open>Unmodelled\<close>.
\<close>

datatype simpleRule =
    ByTag jsstring
  | ById jsstring
  | ByClass jsstring
  | AttrIncludes jsstring jsstring

definition isLetter :: "nat \<Rightarrow> bool" where
  "isLetter c = (65 \<le> c \<and> c \<le> 90 \<or> 97 \<le> c \<and> c \<le> 122)"

definition isNameChar :: "nat \<Rightarrow> bool" where
  "isNameChar c = (isLetter c \<or> 48 \<le> c \<and> c \<le> 57 \<or> c = 45 \<or> c = 95)"

definition isLowerAlnum :: "nat \<Rightarrow> bool" where
  "isLowerAlnum c = (97 \<le> c \<and> c \<le> 122 \<or> 48 \<le> c \<and> c \<le> 57)"

fun isIdent :: "jsstring \<Rightarrow> bool" where
  "isIdent [] = False"
| "isIdent (c # cs) = (isLetter c \<and> list_all isNameChar cs)"

fun isTagName :: "jsstring \<Rightarrow> bool" where
  "isTagName [] = False"
| "isTagName (c # cs) = (97 \<le> c \<and> c \<le> 122 \<and> list_all isLowerAlnum cs)"

definition parseAttrRule :: "jsstring \<Rightarrow> simpleRule option" where
  "parseAttrRule r =
     (let nm = takeWhile isLowerAlnum r;
          r1 = dropWhile isLowerAlnum r;
          v = takeWhile (\<lambda>c. c \<noteq> 34) (drop 3 r1);
          r2 = dropWhile (\<lambda>c. c \<noteq> 34) (drop 3 r1)
      in if isTagName nm \<and> take 3 r1 = js ''*=\"'' \<and> v \<noteq> [] \<and> list_all isNameChar v
            \<and> r2 = js ''\"]''
         then Some (AttrIncludes nm v) else None)"

fun parseSimple :: "jsstring \<Rightarrow> simpleRule option" where
  "parseSimple [] = None"
| "parseSimple (c # r) =
     (if c = 35 then (if isIdent r then Some (ById r) else None)
      else if c = 46 then (if isIdent r then Some (ByClass r) else None)
      else if c = 91 then parseAttrRule r
      else if isTagName (c # r) then Some (ByTag (c # r))
      else None)"

definition trimSpaces :: "jsstring \<Rightarrow> jsstring" where
  "trimSpaces s = rev (dropWhile (\<lambda>c. c = 32) (rev (dropWhile (\<lambda>c. c = 32) s)))"

definition parseRule :: "jsstring \<Rightarrow> simpleRule list option" where
  "parseRule rule = those (map (\<lambda>p. parseSimple (trimSpaces p)) (split 44 rule))"

text \<open>The names of a \<open>class\<close> attribute: its pieces between white space.\<close>

fun classNames :: "jsstring \<Rightarrow> jsstring list" where
  "classNames [] = [[]]"
| "classNames (c # cs) =
     (if isWhiteSpace c then [] # classNames cs
      else (case classNames cs of
              [] \<Rightarrow> [[c]]
            | p # ps \<Rightarrow> (c # p) # ps))"

fun matchesSimple :: "simpleRule \<Rightarrow> node \<Rightarrow> bool" where
  "matchesSimple (ByTag t) e = (name e = t)"
| "matchesSimple (ById i) e = (attr e (js ''id'') = Some i)"
| "matchesSimple (ByClass c) e =
     (case attr e (js ''class'') of
        None \<Rightarrow> False
      | Some cl \<Rightarrow> c \<in> set (classNames cl))"
| "matchesSimple (AttrIncludes a v) e =
     (case attr e a of
        None \<Rightarrow> False
      | Some x \<Rightarrow> includes_js x v)"

text \<open>
  The characters \<open>! $ % & ? @ ^\<close>: none of them is a name character, a combinator or the
  first character of a part of a rule.
\<close>

definition startsNoPart :: "nat \<Rightarrow> bool" where
  "startsNoPart c = (c \<in> {33, 36, 37, 38, 63, 64, 94})"

definition rejectedPart :: "jsstring \<Rightarrow> bool" where
  "rejectedPart p =
     (case p of
        [] \<Rightarrow> False
      | c # r \<Rightarrow>
          (c = 35 \<or> c = 46) \<and> isIdent (takeWhile isNameChar r)
          \<and> (case dropWhile isNameChar r of
                [] \<Rightarrow> False
              | x # xs \<Rightarrow> startsNoPart x))"

definition simpleSelect :: selectFn where
  "simpleSelect rule nodes =
     (case parseRule rule of
        Some alts \<Rightarrow>
          Inr (filter (\<lambda>e. list_ex (\<lambda>a. matchesSimple a e) alts)
                 (concat (map elementsOf nodes)))
      | None \<Rightarrow>
          if list_all (\<lambda>p. case parseSimple (trimSpaces p) of
                             Some a \<Rightarrow> True
                           | None \<Rightarrow> rejectedPart (trimSpaces p))
               (split 44 rule)
          then Inl (SelectorError rule)
          else Inl (Unmodelled rule))"

section \<open>The documents of the scenarios\<close>

text \<open>
  The page of the end-to-end scenario, as the parser delivers it: the fragment
  \<open><div id="p1"><h2>Widget</h2><span class="price">$19.99</span></div>\<close> inside the
  \<open>html\<close>, \<open>head\<close> and \<open>body\<close> elements that every parsed page has.
\<close>

definition widgetFragment :: node where
  "widgetFragment =
     Element (js ''div'') [(js ''id'', js ''p1'')]
       [Element (js ''h2'') [] [TextNode (js ''Widget'')],
        Element (js ''span'') [(js ''class'', js ''price'')] [TextNode (js ''$19.99'')]]"

definition widgetRoot :: node where
  "widgetRoot =
     Element (js ''html'') []
       [Element (js ''head'') [] [],
        Element (js ''body'') [] [widgetFragment]]"

definition widgetPage :: document where
  "widgetPage = [widgetRoot]"





section \<open>The wording of the claims\<close>

text \<open>
  Predicates that follow the words of the specification, to be compared with what the
  code computes. \<open>occursAnyCase w t\<close>: the lower-case ASCII word \<open>w\<close> occurs in \<open>t\<close> in
  any letter case.
\<close>

definition asciiLower :: "nat \<Rightarrow> nat" where
  "asciiLower c = (if 65 \<le> c \<and> c \<le> 90 then c + 32 else c)"

definition occursAnyCase :: "jsstring \<Rightarrow> jsstring \<Rightarrow> bool" where
  "occursAnyCase w t = sublist w (map asciiLower t)"

definition keywordIn :: "jsstring list \<Rightarrow> jsstring \<Rightarrow> bool" where
  "keywordIn ws t = (\<exists>w \<in> set ws. occursAnyCase w t)"

text \<open>
  The money test as the specification words it: a currency symbol, the literal token
  \<open>USD\<close>, or \<open>price\<close> or \<open>cost\<close> in any letter case.
\<close>

definition moneyAsStated :: "jsstring \<Rightarrow> bool" where
  "moneyAsStated t =
     (36 \<in> set t \<or> 8364 \<in> set t \<or> 163 \<in> set t \<or> sublist (js ''USD'') t
      \<or> occursAnyCase (js ''price'') t \<or> occursAnyCase (js ''cost'') t)"

text \<open>The same with \<open>usd\<close> in any letter case, as the \<open>i\<close> flag of the source has it.\<close>

definition moneyAnyCase :: "jsstring \<Rightarrow> bool" where
  "moneyAnyCase t =
     (36 \<in> set t \<or> 8364 \<in> set t \<or> 163 \<in> set t \<or> occursAnyCase (js ''usd'') t
      \<or> occursAnyCase (js ''price'') t \<or> occursAnyCase (js ''cost'') t)"

text \<open>
  The gate of a data type tag: the tagger's pattern on the page text, or one of the
  tag's keywords in the prompt.
\<close>

definition gateFires :: "jsstring \<Rightarrow> nlpDoc \<Rightarrow> jsstring \<Rightarrow> bool" where
  "gateFires userPrompt nlp tg =
     (tg = js ''prices''
        \<and> (hasMoney nlp
           \<or> keywordIn [js ''price'', js ''cost'', [8364], js ''$'', [163]] userPrompt)
      \<or> tg = js ''emails''
        \<and> (emailFound nlp \<or> keywordIn [js ''contact'', js ''email''] userPrompt)
      \<or> tg = js ''phones''
        \<and> (phoneFound nlp \<or> keywordIn [js ''phone'', js ''tel'', js ''contact''] userPrompt)
      \<or> tg = js ''products''
        \<and> (hasNoun nlp \<or> keywordIn [js ''product'', js ''item'', js ''service''] userPrompt))"





section \<open>Facts about strings\<close>

lemma includes_js_sublist: "includes_js s p = sublist p s"
  by (induction s) (simp_all add: sublist_Cons_right)

lemma find_filter_Cons: "filter P xs = y # ys \<Longrightarrow> List.find P xs = Some y"
  by (induction xs) (auto split: if_splits)

lemma find_filter_Nil: "filter P xs = [] \<Longrightarrow> List.find P xs = None"
  by (induction xs) (auto split: if_splits)

lemma canon_lower: "canonicalize c = canonicalize d \<longleftrightarrow> asciiLower c = asciiLower d"
  by (auto simp: canonicalize_def asciiLower_def)

lemma map_canon_lower:
  "map canonicalize u = map canonicalize p \<longleftrightarrow> map asciiLower u = map asciiLower p"
proof (induction u arbitrary: p)
  case Nil then show ?case by auto
next
  case (Cons a u) then show ?case by (cases p) (auto simp: canon_lower)
qed

lemma sublist_canon_lower:
  "sublist (map canonicalize p) (map canonicalize t)
     \<longleftrightarrow> sublist (map asciiLower p) (map asciiLower t)"
proof
  assume "sublist (map canonicalize p) (map canonicalize t)"
  then obtain u where u: "sublist u t" "map canonicalize p = map canonicalize u"
    by (auto dest: sublist_map_rightE)
  then have "map asciiLower p = map asciiLower u" by (simp add: map_canon_lower)
  then show "sublist (map asciiLower p) (map asciiLower t)"
    using u(1) by (simp add: map_mono_sublist)
next
  assume "sublist (map asciiLower p) (map asciiLower t)"
  then obtain u where u: "sublist u t" "map asciiLower p = map asciiLower u"
    by (auto dest: sublist_map_rightE)
  then have "map canonicalize p = map canonicalize u" by (simp add: map_canon_lower)
  then show "sublist (map canonicalize p) (map canonicalize t)"
    using u(1) by (simp add: map_mono_sublist)
qed

lemma sublist_single: "sublist [x] t \<longleftrightarrow> x \<in> set t"
  by (induction t) (auto simp: sublist_Cons_right)

lemma test_i_lower:
  "test_i alts t \<longleftrightarrow> (\<exists>p \<in> set alts. sublist (map asciiLower p) (map asciiLower t))"
  by (simp add: test_i_def includes_js_sublist sublist_canon_lower)

lemma moneyPattern_anyCase: "test_i moneyPattern t = moneyAnyCase t"
  by (simp add: test_i_lower moneyPattern_def moneyAnyCase_def occursAnyCase_def
      sublist_single asciiLower_def image_iff)


lemma test_i_keywordIn:
  "list_all (\<lambda>w. map asciiLower w = w) ws \<Longrightarrow> test_i ws t = keywordIn ws t"
  by (induction ws) (auto simp: test_i_lower keywordIn_def occursAnyCase_def)

section \<open>The selector synthesizer\<close>

text \<open>
  C4, as the code has it. An id that is present and not empty gives \<open>#\<close> and the id;
  otherwise the first piece of the class attribute with more than two code units gives
  \<open>.\<close> and that piece; otherwise the tag name is the rule. On the class attribute
  \<open>a bb ccc\<close> the pieces \<open>a\<close> and \<open>bb\<close> are both too short, and the rule is \<open>.ccc\<close>.
\<close>

theorem buildSelector_policy:
  "(\<forall>i. id' e = Some i \<and> i \<noteq> [] \<longrightarrow> buildSelector e = js ''#'' @ i)
   \<and> (\<forall>cl c. (id' e = None \<or> id' e = Some []) \<and> classes e = Some cl
          \<and> List.find (\<lambda>c. length c > 2) (split 32 cl) = Some c
        \<longrightarrow> buildSelector e = js ''.'' @ c)
   \<and> ((id' e = None \<or> id' e = Some [])
        \<and> (\<forall>cl. classes e = Some cl \<longrightarrow> List.find (\<lambda>c. length c > 2) (split 32 cl) = None)
        \<longrightarrow> buildSelector e = tag e)
   \<and> (id' e = None \<and> classes e = Some (js ''a bb ccc'') \<longrightarrow> buildSelector e = js ''.ccc'')"
proof -
  have by_id: "buildSelector e = js ''#'' @ i" if "id' e = Some i" "i \<noteq> []" for i
    using that by (simp add: buildSelector_def)
  have by_class: "buildSelector e = js ''.'' @ c"
    if "id' e = None \<or> id' e = Some []" "classes e = Some cl"
       "List.find (\<lambda>c. length c > 2) (split 32 cl) = Some c" for cl c
  proof (cases "filter (\<lambda>c. length c > 2) (split 32 cl)")
    case Nil
    then show ?thesis using that(3) by (simp add: find_filter_Nil)
  next
    case (Cons y ys)
    then have "y = c" using that(3) by (simp add: find_filter_Cons)
    moreover have "cl \<noteq> []" using that(3) by auto
    ultimately show ?thesis using that(1,2) Cons by (auto simp: buildSelector_def)
  qed
  have by_tag: "buildSelector e = tag e"
    if "id' e = None \<or> id' e = Some []"
       "\<forall>cl. classes e = Some cl \<longrightarrow> List.find (\<lambda>c. length c > 2) (split 32 cl) = None"
  proof (cases "classes e")
    case None
    then show ?thesis using that(1) by (auto simp: buildSelector_def)
  next
    case (Some cl)
    then have "List.find (\<lambda>c. length c > 2) (split 32 cl) = None" using that(2) by simp
    then have "filter (\<lambda>c. length c > 2) (split 32 cl) = []"
      by (cases "filter (\<lambda>c. length c > 2) (split 32 cl)") (auto dest: find_filter_Cons)
    then show ?thesis using that(1) Some by (auto simp: buildSelector_def)
  qed
  have example: "buildSelector e = js ''.ccc''"
    if "id' e = None" "classes e = Some (js ''a bb ccc'')"
    using that by (simp add: buildSelector_def)
  show ?thesis using by_id by_class by_tag example by blast
qed

theorem buildSelector_policy_witness:
  "buildSelector \<lparr>tag = js ''div'', text' = [], classes = Some (js ''a bb ccc''),
                   id' = Some (js ''x'')\<rparr> = js ''#x''
   \<and> buildSelector \<lparr>tag = js ''div'', text' = [], classes = Some (js ''a bb ccc''),
                     id' = None\<rparr> = js ''.ccc''
   \<and> buildSelector \<lparr>tag = js ''div'', text' = [], classes = Some (js ''a bb''),
                     id' = Some []\<rparr> = js ''div''"
  using
    buildSelector_policy [of "\<lparr>tag = js ''div'', text' = [],
       classes = Some (js ''a bb ccc''), id' = Some (js ''x'')\<rparr>"]
    buildSelector_policy [of "\<lparr>tag = js ''div'', text' = [],
       classes = Some (js ''a bb ccc''), id' = None\<rparr>"]
    buildSelector_policy [of "\<lparr>tag = js ''div'', text' = [],
       classes = Some (js ''a bb''), id' = Some []\<rparr>"]
  by simp

text \<open>
  The claim's own example fails: on the class attribute \<open>a bb ccc\<close> with no id the rule
  is not \<open>.bb\<close>, since \<open>bb\<close> has two code units and the filter asks for more than two.
\<close>

theorem buildSelector_bb_counterexample:
  "buildSelector \<lparr>tag = js ''div'', text' = [], classes = Some (js ''a bb ccc''),
                   id' = None\<rparr> \<noteq> js ''.bb''
   \<and> buildSelector \<lparr>tag = js ''div'', text' = [], classes = Some (js ''a bb ccc''),
                     id' = None\<rparr> = js ''.ccc''"
  by (simp add: buildSelector_def)

section \<open>The missing contact method\<close>

text \<open>
  C1 at its failing input. With the prompt \<open>contact\<close> the contact branch is taken on
  every document, whatever the tagger reports; the call of the method that the class
  does not define throws, and the fallback classifier and the orchestrator pass the
  error on instead of returning a result.
\<close>

theorem fallback_contact_throws:
  "fallbackAnalysis compromise doc (js ''contact'') textContent
     = Inl (TypeError (js ''this.findBestContactSelector is not a function''))
   \<and> analyzeContentStructure JSON_parse compromise doc (js ''contact'') None
     = Inl (TypeError (js ''this.findBestContactSelector is not a function''))"
  by (simp add: analyzeContentStructure_def fallbackAnalysis_def
      intelligentSelectorDiscovery_def toLowerCase_def lowerUnit_def Let_def)

section \<open>Unparseable oracle text\<close>

text \<open>
  C2 at its failing inputs. The oracle answered with the text \<open>no json here\<close>, which has
  no brace: the orchestrator returns \<open>null\<close>, whatever the JSON parser, the tagger, the
  document and the prompt are, and the fallback classifier is not run. The same holds
  for the text \<open>{oops}\<close> when the parser rejects its span.
\<close>

theorem unparseable_answer_gives_null:
  "analyzeContentStructure JSON_parse compromise doc userPrompt (Some (js ''no json here''))
     = Inr Null
   \<and> analyzeContentStructure Map.empty compromise doc userPrompt (Some (js ''{oops}''))
     = Inr Null"
  by (simp add: analyzeContentStructure_def parseAIResponse_def matchBraces_def)

section \<open>The oracle's object is not wrapped\<close>

text \<open>
  C3 at its failing input. The oracle answers with the field map \<open>{"price": ".p"}\<close>,
  the answer that the request asks for, and the parser turns the text into that object.
  The orchestrator returns the object as it is, whatever the tagger, the document and
  the prompt are: read as the callers read it, the result has no \<open>selectors\<close> property
  holding the map and no \<open>source\<close> property.
\<close>

theorem oracle_field_map_unwrapped:
  "analyzeContentStructure
      [js ''{\"price\": \".p\"}'' \<mapsto> JObject [(js ''price'', JString (js ''.p''))]]
      compromise doc userPrompt (Some (js ''{\"price\": \".p\"}''))
    = Inr (Parsed (JObject [(js ''price'', JString (js ''.p''))]))
   \<and> property (asJson (Parsed (JObject [(js ''price'', JString (js ''.p''))])))
        (js ''selectors'') = None
   \<and> property (asJson (Parsed (JObject [(js ''price'', JString (js ''.p''))])))
        (js ''source'') = None"
  by (simp add: analyzeContentStructure_def parseAIResponse_def matchBraces_def)

section \<open>The price scan\<close>

text \<open>
  C6, as the code has it. The price rule is the synthesizer's rule for the first
  candidate, in list order, whose text has a dollar, euro or pound sign or has \<open>usd\<close>,
  \<open>price\<close> or \<open>cost\<close> in any letter case; no later candidate is preferred. When no
  candidate has one, the rule is the generic price rule.
\<close>

theorem findBestPriceSelector_first_match:
  "(\<forall>i. i < length els \<and> moneyAnyCase (text' (els ! i))
        \<and> (\<forall>j. j < i \<longrightarrow> \<not> moneyAnyCase (text' (els ! j)))
      \<longrightarrow> findBestPriceSelector els = buildSelector (els ! i))
   \<and> ((\<forall>c \<in> set els. \<not> moneyAnyCase (text' c))
      \<longrightarrow> findBestPriceSelector els = js ''.price, .cost, [class*=\"price\"]'')"
proof (intro conjI allI impI)
  fix i
  assume a: "i < length els \<and> moneyAnyCase (text' (els ! i))
        \<and> (\<forall>j. j < i \<longrightarrow> \<not> moneyAnyCase (text' (els ! j)))"
  then have "List.find (\<lambda>elem. test_i moneyPattern (text' elem)) els = Some (els ! i)"
    unfolding find_Some_iff moneyPattern_anyCase by blast
  then show "findBestPriceSelector els = buildSelector (els ! i)"
    by (simp add: findBestPriceSelector_def)
next
  assume "\<forall>c \<in> set els. \<not> moneyAnyCase (text' c)"
  then have "List.find (\<lambda>elem. test_i moneyPattern (text' elem)) els = None"
    unfolding find_None_iff moneyPattern_anyCase by blast
  then show "findBestPriceSelector els = js ''.price, .cost, [class*=\"price\"]''"
    by (simp add: findBestPriceSelector_def)
qed

theorem findBestPriceSelector_first_match_witness:
  "findBestPriceSelector
     [\<lparr>tag = js ''h1'', text' = js ''Opening hours'', classes = None, id' = None\<rparr>,
      \<lparr>tag = js ''p'', text' = js ''pay in usd only'', classes = None, id' = None\<rparr>,
      \<lparr>tag = js ''span'', text' = js ''Total: $19.99 now'', classes = None,
         id' = Some (js ''x'')\<rparr>]
     = js ''p''
   \<and> findBestPriceSelector
       [\<lparr>tag = js ''h1'', text' = js ''Opening hours'', classes = None, id' = None\<rparr>]
     = js ''.price, .cost, [class*=\"price\"]''"
proof -
  have m0: "\<not> moneyAnyCase (js ''Opening hours'')"
    by (simp add: moneyAnyCase_def occursAnyCase_def asciiLower_def sublist_Cons_right)
  have m1: "moneyAnyCase (js ''pay in usd only'')"
    by (simp add: moneyAnyCase_def occursAnyCase_def asciiLower_def sublist_Cons_right)
  show ?thesis
    using m0 m1
      findBestPriceSelector_first_match [of
        "[\<lparr>tag = js ''h1'', text' = js ''Opening hours'', classes = None, id' = None\<rparr>,
          \<lparr>tag = js ''p'', text' = js ''pay in usd only'', classes = None, id' = None\<rparr>,
          \<lparr>tag = js ''span'', text' = js ''Total: $19.99 now'', classes = None,
             id' = Some (js ''x'')\<rparr>]", THEN conjunct1, THEN spec, of 1]
      findBestPriceSelector_first_match [of
        "[\<lparr>tag = js ''h1'', text' = js ''Opening hours'', classes = None, id' = None\<rparr>]",
        THEN conjunct2]
    by (simp add: buildSelector_def)
qed

text \<open>
  With \<open>USD\<close> read as a literal token the claim fails: the first candidate's text has
  \<open>usd\<close> in lower case only, the code takes that candidate, and the claim's wording
  takes the second one.
\<close>

theorem usd_token_counterexample:
  "findBestPriceSelector
     [\<lparr>tag = js ''p'', text' = js ''pay in usd only'', classes = None, id' = None\<rparr>,
      \<lparr>tag = js ''span'', text' = js ''Total: $19.99 now'', classes = None,
         id' = Some (js ''x'')\<rparr>]
     = js ''p''
   \<and> (case List.find (\<lambda>c. moneyAsStated (text' c))
          [\<lparr>tag = js ''p'', text' = js ''pay in usd only'', classes = None, id' = None\<rparr>,
           \<lparr>tag = js ''span'', text' = js ''Total: $19.99 now'', classes = None,
              id' = Some (js ''x'')\<rparr>] of
         Some c \<Rightarrow> buildSelector c
       | None \<Rightarrow> js ''.price, .cost, [class*=\"price\"]'')
     = js ''#x''"
  by (simp add: findBestPriceSelector_def test_i_def moneyPattern_def canonicalize_def
      buildSelector_def moneyAsStated_def occursAnyCase_def asciiLower_def sublist_Cons_right)

section \<open>The contact gate\<close>

text \<open>
  C7, as the code has it. The fallback returns selectors without a \<open>contact\<close> field
  exactly when the lower-cased prompt does not contain \<open>contact\<close> and the tagger finds
  neither an e-mail address nor a phone number. The words \<open>email\<close>, \<open>phone\<close> and \<open>tel\<close>
  in the prompt are not part of this gate.
\<close>

theorem contact_gate:
  "(\<exists>sels. intelligentSelectorDiscovery doc p nlp = Inr sels
        \<and> map_of sels (js ''contact'') = None)
     \<longleftrightarrow> \<not> (includes_js (toLowerCase p) (js ''contact'') \<or> emailFound nlp \<or> phoneFound nlp)"
  by (auto simp: intelligentSelectorDiscovery_def Let_def)

text \<open>
  The claim's keyword list fails: the prompt \<open>email, phone, tel\<close> on a page where the
  tagger finds nothing gives the item rule alone.
\<close>

theorem contact_keywords_counterexample:
  "intelligentSelectorDiscovery widgetPage (js ''email, phone, tel'')
      \<lparr>hasMoney = False, hasNoun = False, emailFound = False, phoneFound = False\<rparr>
    = Inr [(js ''item'', js ''.product, .item, .card, [class*=\"item\"], li, article'')]"
  by (simp add: intelligentSelectorDiscovery_def Let_def toLowerCase_def lowerUnit_def)

section \<open>The data type inventory\<close>

lemma push_filter:
  assumes "distinct [a, b, c, d]"
  shows "(let ts = [];
              ts = (if g1 then ts @ [a] else ts);
              ts = (if g2 then ts @ [b] else ts);
              ts = (if g3 then ts @ [c] else ts);
              ts = (if g4 then ts @ [d] else ts)
          in if length ts > 0 then ts else dflt)
         = (if filter (\<lambda>x. x = a \<and> g1 \<or> x = b \<and> g2 \<or> x = c \<and> g3 \<or> x = d \<and> g4)
                 [a, b, c, d] = []
            then dflt
            else filter (\<lambda>x. x = a \<and> g1 \<or> x = b \<and> g2 \<or> x = c \<and> g3 \<or> x = d \<and> g4)
                   [a, b, c, d])"
  using assms by (cases g1; cases g2; cases g3; cases g4) (auto simp: Let_def)

lemma tags_distinct:
  "distinct [js ''prices'', js ''emails'', js ''phones'', js ''products'']"
  by simp

text \<open>
  C9. The inventory is never empty. It is the list of the tags \<open>prices\<close>, \<open>emails\<close>,
  \<open>phones\<close>, \<open>products\<close>, in that order, whose gate fires, and \<open>text_content\<close> alone when
  no gate fires.
\<close>

theorem identifyDataTypes_inventory:
  "identifyDataTypes p n \<noteq> []
   \<and> identifyDataTypes p n =
       (if filter (gateFires p n)
             [js ''prices'', js ''emails'', js ''phones'', js ''products''] = []
        then [js ''text_content'']
        else filter (gateFires p n)
               [js ''prices'', js ''emails'', js ''phones'', js ''products''])"
proof -
  have g1: "test_i [js ''price'', js ''cost'', [8364], js ''$'', [163]] p
              = keywordIn [js ''price'', js ''cost'', [8364], js ''$'', [163]] p"
    by (rule test_i_keywordIn) (simp add: asciiLower_def)
  have g2: "test_i [js ''contact'', js ''email''] p = keywordIn [js ''contact'', js ''email''] p"
    by (rule test_i_keywordIn) (simp add: asciiLower_def)
  have g3: "test_i [js ''phone'', js ''tel'', js ''contact''] p
              = keywordIn [js ''phone'', js ''tel'', js ''contact''] p"
    by (rule test_i_keywordIn) (simp add: asciiLower_def)
  have g4: "test_i [js ''product'', js ''item'', js ''service''] p
              = keywordIn [js ''product'', js ''item'', js ''service''] p"
    by (rule test_i_keywordIn) (simp add: asciiLower_def)
  have G: "gateFires p n =
      (\<lambda>x. x = js ''prices''
            \<and> (hasMoney n
               \<or> keywordIn [js ''price'', js ''cost'', [8364], js ''$'', [163]] p)
          \<or> x = js ''emails''
            \<and> (emailFound n \<or> keywordIn [js ''contact'', js ''email''] p)
          \<or> x = js ''phones''
            \<and> (phoneFound n \<or> keywordIn [js ''phone'', js ''tel'', js ''contact''] p)
          \<or> x = js ''products''
            \<and> (hasNoun n \<or> keywordIn [js ''product'', js ''item'', js ''service''] p))"
    unfolding gateFires_def by (rule ext) (rule refl)
  have eq: "identifyDataTypes p n =
       (if filter (gateFires p n)
             [js ''prices'', js ''emails'', js ''phones'', js ''products''] = []
        then [js ''text_content'']
        else filter (gateFires p n)
               [js ''prices'', js ''emails'', js ''phones'', js ''products''])"
    unfolding identifyDataTypes_def g1 g2 g3 g4 G
    by (rule push_filter [OF tags_distinct])
  have ne: "identifyDataTypes p n \<noteq> []"
    unfolding eq by simp
  show ?thesis using ne eq by (rule conjI)
qed

section \<open>The preview materializer\<close>















section \<open>The end-to-end scenario\<close>

lemma widget_candidates:
  "collectElements widgetPage =
     [\<lparr>tag = js ''html'', text' = js ''Widget$19.99'', classes = None, id' = None\<rparr>,
      \<lparr>tag = js ''body'', text' = js ''Widget$19.99'', classes = None, id' = None\<rparr>,
      \<lparr>tag = js ''div'', text' = js ''Widget$19.99'', classes = None, id' = Some (js ''p1'')\<rparr>]"
  by (simp add: collectElements_def allElements_def candidateOf_def trim_def isWhiteSpace_def
      widgetPage_def widgetRoot_def widgetFragment_def)

lemma widget_price:
  "findBestPriceSelector (collectElements widgetPage) = js ''html''"
  unfolding widget_candidates
  by (simp add: findBestPriceSelector_def test_i_def moneyPattern_def canonicalize_def
      buildSelector_def)

lemma widget_title:
  "findBestTitleSelector (collectElements widgetPage) = js ''.title, .name, h1, h2, h3''"
  unfolding widget_candidates
  by (simp add: findBestTitleSelector_def)

lemma widget_prompt:
  "includes_js (toLowerCase (js ''get me the price and title'')) (js ''price'')"
  "\<not> includes_js (toLowerCase (js ''get me the price and title'')) (js ''product'')"
  "\<not> includes_js (toLowerCase (js ''get me the price and title'')) (js ''contact'')"
  by (simp_all add: toLowerCase_def lowerUnit_def)

lemma widget_selectors:
  "\<not> emailFound nlp \<Longrightarrow> \<not> phoneFound nlp \<Longrightarrow>
     intelligentSelectorDiscovery widgetPage (js ''get me the price and title'') nlp
       = Inr ([(js ''price'', js ''html'')]
              @ (if hasNoun nlp then [(js ''title'', js ''.title, .name, h1, h2, h3'')] else [])
              @ [(js ''item'', js ''.product, .item, .card, [class*=\"item\"], li, article'')])"
  unfolding intelligentSelectorDiscovery_def Let_def widget_price widget_title
  by (simp only: widget_prompt) simp

lemma widget_prompt_tests:
  "test_i [js ''price'', js ''cost'', [8364], js ''$'', [163]] (js ''get me the price and title'')"
  "\<not> test_i [js ''contact'', js ''email''] (js ''get me the price and title'')"
  "\<not> test_i [js ''phone'', js ''tel'', js ''contact''] (js ''get me the price and title'')"
  "\<not> test_i [js ''product'', js ''item'', js ''service''] (js ''get me the price and title'')"
  by (simp_all add: test_i_def canonicalize_def)

lemma widget_dataTypes:
  "\<not> emailFound nlp \<Longrightarrow> \<not> phoneFound nlp \<Longrightarrow>
     identifyDataTypes (js ''get me the price and title'') nlp
       = [js ''prices''] @ (if hasNoun nlp then [js ''products''] else [])"
  unfolding identifyDataTypes_def Let_def
  by (simp only: widget_prompt_tests) simp

lemma widget_text:
  "take 1500 (concat (map nodeText (filter (\<lambda>e. name e = js ''body'') (allElements widgetPage))))
     = js ''Widget$19.99''"
  by (simp add: allElements_def widgetPage_def widgetRoot_def widgetFragment_def)

lemma widget_items:
  "simpleSelect (js ''.product, .item, .card, [class*=\"item\"], li, article'') widgetPage = Inr []"
  by (simp add: simpleSelect_def parseRule_def trimSpaces_def isLetter_def isNameChar_def
      isLowerAlnum_def parseAttrRule_def widgetPage_def widgetRoot_def widgetFragment_def isWhiteSpace_def)

lemma widget_preview:
  assumes "map_of sels (js ''item'')
             = Some (js ''.product, .item, .card, [class*=\"item\"], li, article'')"
  shows "generateDataPreview simpleSelect widgetPage sels = Inr []"
proof -
  have ne: "js ''.product, .item, .card, [class*=\"item\"], li, article'' \<noteq> []"
    by simp
  show ?thesis
    unfolding generateDataPreview_def Let_def assms option.case
    by (simp only: ne not_False_eq_True if_True widget_items sum.case eachItem.simps)
qed

text \<open>
  C5, as the code has it. On the scenario page with the prompt
  \<open>get me the price and title\<close> and no oracle answer, whenever the tagger finds no e-mail
  address and no phone number in the page text: the price rule is \<open>html\<close> (the first
  candidate is the root element, whose text has the dollar sign); the title rule is the
  generic title rule, present exactly when the tagger finds a noun (the text of the
  \<open>h2\<close> element has six code units, not more than ten); the item rule is the generic
  container rule; the data types are \<open>prices\<close> and, when the tagger finds a noun,
  \<open>products\<close>; and the preview has no record, since no element of the page matches the
  item rule.
\<close>

theorem widget_scenario:
  assumes "\<not> emailFound (compromise (js ''Widget$19.99''))"
    and "\<not> phoneFound (compromise (js ''Widget$19.99''))"
  shows "\<exists>r. analyzeContentStructure JSON_parse compromise widgetPage
               (js ''get me the price and title'') None = Inr (Fallback r)
     \<and> selectors r =
         [(js ''price'', js ''html'')]
         @ (if hasNoun (compromise (js ''Widget$19.99''))
            then [(js ''title'', js ''.title, .name, h1, h2, h3'')] else [])
         @ [(js ''item'', js ''.product, .item, .card, [class*=\"item\"], li, article'')]
     \<and> dataTypes r =
         [js ''prices'']
         @ (if hasNoun (compromise (js ''Widget$19.99'')) then [js ''products''] else [])
     \<and> confidence r = js ''medium'' \<and> source r = js ''fallback''
     \<and> generateDataPreview simpleSelect widgetPage (selectors r) = Inr []"
proof -
  let ?nlp = "compromise (js ''Widget$19.99'')"
  have fb: "fallbackAnalysis compromise widgetPage (js ''get me the price and title'')
              (js ''Widget$19.99'')
            = Inr \<lparr>selectors = [(js ''price'', js ''html'')]
                     @ (if hasNoun ?nlp
                        then [(js ''title'', js ''.title, .name, h1, h2, h3'')] else [])
                     @ [(js ''item'',
                         js ''.product, .item, .card, [class*=\"item\"], li, article'')],
                   dataTypes = [js ''prices'']
                     @ (if hasNoun ?nlp then [js ''products''] else []),
                   confidence = js ''medium'', source = js ''fallback''\<rparr>"
    unfolding fallbackAnalysis_def Let_def
    by (simp only: widget_selectors [OF assms] widget_dataTypes [OF assms] sum.case)
  have "analyzeContentStructure JSON_parse compromise widgetPage
          (js ''get me the price and title'') None
        = Inr (Fallback \<lparr>selectors = [(js ''price'', js ''html'')]
                     @ (if hasNoun ?nlp
                        then [(js ''title'', js ''.title, .name, h1, h2, h3'')] else [])
                     @ [(js ''item'',
                         js ''.product, .item, .card, [class*=\"item\"], li, article'')],
                   dataTypes = [js ''prices'']
                     @ (if hasNoun ?nlp then [js ''products''] else []),
                   confidence = js ''medium'', source = js ''fallback''\<rparr>)"
    unfolding analyzeContentStructure_def Let_def widget_text
    by (simp only: fb) simp
  moreover have "generateDataPreview simpleSelect widgetPage
        ([(js ''price'', js ''html'')]
         @ (if hasNoun ?nlp then [(js ''title'', js ''.title, .name, h1, h2, h3'')] else [])
         @ [(js ''item'', js ''.product, .item, .card, [class*=\"item\"], li, article'')])
       = Inr []"
    by (rule widget_preview) simp
  ultimately show ?thesis by simp
qed

theorem widget_scenario_witness:
  "\<exists>r. analyzeContentStructure Map.empty
          (\<lambda>t. \<lparr>hasMoney = False, hasNoun = False, emailFound = False, phoneFound = False\<rparr>)
          widgetPage (js ''get me the price and title'') None = Inr (Fallback r)
     \<and> selectors r =
         [(js ''price'', js ''html''),
          (js ''item'', js ''.product, .item, .card, [class*=\"item\"], li, article'')]
     \<and> dataTypes r = [js ''prices'']
     \<and> confidence r = js ''medium'' \<and> source r = js ''fallback''
     \<and> generateDataPreview simpleSelect widgetPage (selectors r) = Inr []"
  using widget_scenario [of
      "(\<lambda>t. \<lparr>hasMoney = False, hasNoun = False, emailFound = False, phoneFound = False\<rparr>)"
      Map.empty]
  by simp

text \<open>
  The claim fails on the scenario page even when the tagger reports both a monetary
  value and a noun: the price rule is \<open>html\<close>, neither \<open>#p1\<close> nor \<open>.price\<close>; the title
  rule is the generic rule, not \<open>h2\<close>; and the preview is empty.
\<close>

theorem widget_scenario_counterexample:
  "analyzeContentStructure Map.empty
      (\<lambda>t. \<lparr>hasMoney = True, hasNoun = True, emailFound = False, phoneFound = False\<rparr>)
      widgetPage (js ''get me the price and title'') None
    = Inr (Fallback
        \<lparr>selectors =
           [(js ''price'', js ''html''),
            (js ''title'', js ''.title, .name, h1, h2, h3''),
            (js ''item'', js ''.product, .item, .card, [class*=\"item\"], li, article'')],
         dataTypes = [js ''prices'', js ''products''],
         confidence = js ''medium'', source = js ''fallback''\<rparr>)
   \<and> generateDataPreview simpleSelect widgetPage
        [(js ''price'', js ''html''),
         (js ''title'', js ''.title, .name, h1, h2, h3''),
         (js ''item'', js ''.product, .item, .card, [class*=\"item\"], li, article'')]
      = Inr []"
proof -
  have fb: "fallbackAnalysis
      (\<lambda>t. \<lparr>hasMoney = True, hasNoun = True, emailFound = False, phoneFound = False\<rparr>)
      widgetPage (js ''get me the price and title'') (js ''Widget$19.99'')
    = Inr \<lparr>selectors =
           [(js ''price'', js ''html''),
            (js ''title'', js ''.title, .name, h1, h2, h3''),
            (js ''item'', js ''.product, .item, .card, [class*=\"item\"], li, article'')],
         dataTypes = [js ''prices'', js ''products''],
         confidence = js ''medium'', source = js ''fallback''\<rparr>"
  proof -
    have s: "intelligentSelectorDiscovery widgetPage (js ''get me the price and title'')
          \<lparr>hasMoney = True, hasNoun = True, emailFound = False, phoneFound = False\<rparr>
        = Inr [(js ''price'', js ''html''),
            (js ''title'', js ''.title, .name, h1, h2, h3''),
            (js ''item'', js ''.product, .item, .card, [class*=\"item\"], li, article'')]"
      using widget_selectors [of
          "\<lparr>hasMoney = True, hasNoun = True, emailFound = False, phoneFound = False\<rparr>"]
      by simp
    have d: "identifyDataTypes (js ''get me the price and title'')
          \<lparr>hasMoney = True, hasNoun = True, emailFound = False, phoneFound = False\<rparr>
        = [js ''prices'', js ''products'']"
      using widget_dataTypes [of
          "\<lparr>hasMoney = True, hasNoun = True, emailFound = False, phoneFound = False\<rparr>"]
      by simp
    show ?thesis
      unfolding fallbackAnalysis_def Let_def
      by (simp only: s d sum.case)
  qed
  have "analyzeContentStructure Map.empty
      (\<lambda>t. \<lparr>hasMoney = True, hasNoun = True, emailFound = False, phoneFound = False\<rparr>)
      widgetPage (js ''get me the price and title'') None
    = Inr (Fallback
        \<lparr>selectors =
           [(js ''price'', js ''html''),
            (js ''title'', js ''.title, .name, h1, h2, h3''),
            (js ''item'', js ''.product, .item, .card, [class*=\"item\"], li, article'')],
         dataTypes = [js ''prices'', js ''products''],
         confidence = js ''medium'', source = js ''fallback''\<rparr>)"
    unfolding analyzeContentStructure_def Let_def widget_text
    by (simp only: fb) simp
  moreover have "generateDataPreview simpleSelect widgetPage
        [(js ''price'', js ''html''),
         (js ''title'', js ''.title, .name, h1, h2, h3''),
         (js ''item'', js ''.product, .item, .card, [class*=\"item\"], li, article'')]
      = Inr []"
    by (rule widget_preview) simp
  ultimately show ?thesis by (rule conjI)
qed

section \<open>Ancestors as candidates\<close>


























end
